theory Spec2Isabelle
  imports Complex_Main "HOL-Library.Word"
begin

section \<open>Passport validation service: data model\<close>

text \<open>
  The service of \<^verbatim>\<open>passport_validation.py\<close> decodes an uploaded file and runs three
  checks on the decoded picture: \<^verbatim>\<open>check_image_quality\<close>, \<^verbatim>\<open>validate_mrz\<close> and
  \<^verbatim>\<open>check_passport_layout\<close>. The vision work itself is done by libraries (OpenCV,
  PassportEye); the decisions taken on what they return are the code embedded here.
\<close>

subsection \<open>Pictures\<close>

text \<open>
  A decoded picture is a \<^verbatim>\<open>numpy\<close> array of shape \<^verbatim>\<open>(height, width, 3)\<close> holding
  unsigned bytes. The two leading dimensions are what \<^verbatim>\<open>image.shape[:2]\<close> reads.
\<close>

record ndarray =
  height :: nat
  width :: nat
  samples :: "8 word list"

subsection \<open>What PassportEye returns\<close>

text \<open>
  \<^verbatim>\<open>read_mrz\<close> returns \<^verbatim>\<open>None\<close> or an object. Which attributes the object has depends on
  what PassportEye has recognised: a passport MRZ gives all thirteen read by
  \<^verbatim>\<open>validate_mrz\<close>, a visa MRZ has no composite check digit and so no
  \<^verbatim>\<open>valid_composite\<close>, a text that could not be parsed gives little more than
  \<^verbatim>\<open>valid_score\<close>. So every attribute is optional here, \<^verbatim>\<open>None\<close> standing for an object
  without it. Reading a missing attribute raises \<^verbatim>\<open>AttributeError\<close>.
\<close>

record mrz =
  valid_score :: "int option"
  country :: "string option"
  number :: "string option"
  date_of_birth :: "string option"
  expiration_date :: "string option"
  names :: "string option"
  surname :: "string option"
  sex :: "string option"
  nationality :: "string option"
  valid_number :: "bool option"
  valid_date_of_birth :: "bool option"
  valid_expiration_date :: "bool option"
  valid_composite :: "bool option"

text \<open>The dictionary built by \<^verbatim>\<open>validate_mrz\<close>, with its nested \<^verbatim>\<open>validation_details\<close>.\<close>

record validation_details =
  d_valid_score :: int
  d_number_valid :: bool
  d_dob_valid :: bool
  d_expiry_valid :: bool
  d_composite_valid :: bool

record mrz_data =
  m_country :: string
  m_passport_number :: string
  m_birth_date :: string
  m_expiry_date :: string
  m_name :: string
  m_surname :: string
  m_gender :: string
  m_nationality :: string
  m_validation_details :: validation_details

subsection \<open>Exceptions, responses\<close>

text \<open>
  \<^verbatim>\<open>HTTPException\<close> is the one exception the handler raises itself; \<^verbatim>\<open>AttributeError\<close>,
  with the name of the attribute, is what reading a missing attribute raises;
  \<^verbatim>\<open>LibraryError\<close> stands for any exception coming out of a library call, with the text
  \<^verbatim>\<open>str(e)\<close> gives for it.
\<close>

datatype exn = HTTPException int string | AttributeError string | LibraryError string

datatype json = JBool bool | JInt int | JStr string | JObj "(string \<times> json) list"

text \<open>
  The handler ends in one of three ways: it returns a \<^verbatim>\<open>JSONResponse\<close> with an explicit
  status code, it returns a plain dictionary, or it raises an \<^verbatim>\<open>HTTPException\<close>.
\<close>

datatype response =
  JSONResponse int json
| Returned json
| Raised int string

subsection \<open>The outside world\<close>

text \<open>
  The library calls are the effects of the pipeline. \<^verbatim>\<open>cv2.imwrite\<close> stores a file;
  every call is also recorded, in order, so that it can be said which calls a run made.
\<close>

datatype call = Laplacian_var | Imwrite string | Read_mrz string | DetectMultiScale

record world =
  files :: "string \<rightharpoonup> 8 word list"
  calls :: "call list"

text \<open>
  The libraries are parameters of the model.
  \<^item> \<open>laplacian_var\<close>: \<^verbatim>\<open>cv2.Laplacian(cv2.cvtColor(image, BGR2GRAY), CV_64F).var()\<close>,
    the value of the resulting double;
  \<^item> \<open>format_1f\<close>: the text of \<^verbatim>\<open>{sharpness:.1f}\<close>;
  \<^item> \<open>imencode\<close>: the bytes \<^verbatim>\<open>cv2.imwrite\<close> stores for a picture under a \<^verbatim>\<open>.jpg\<close> name;
  \<^item> \<open>read_mrz\<close>: PassportEye on the content found at the path it is given
    (\<open>None\<close> when there is no such file);
  \<^item> \<open>detectMultiScale\<close>: the Haar cascade's boxes \<^verbatim>\<open>(x, y, w, h)\<close>, in the order returned;
  \<^item> \<open>str_exn\<close>: \<^verbatim>\<open>str(e)\<close>.
\<close>

record providers =
  laplacian_var :: "ndarray \<Rightarrow> exn + real"
  format_1f :: "real \<Rightarrow> string"
  imencode :: "ndarray \<Rightarrow> 8 word list"
  read_mrz :: "8 word list option \<Rightarrow> exn + mrz option"
  detectMultiScale :: "ndarray \<Rightarrow> exn + (int \<times> int \<times> int \<times> int) list"
  str_exn :: "exn \<Rightarrow> string"

definition record_call :: "call \<Rightarrow> world \<Rightarrow> world" where
  "record_call c w = w\<lparr>calls := calls w @ [c]\<rparr>"

section \<open>The three checks\<close>

text \<open>
  \<^verbatim>\<open>check_image_quality\<close>: the resolution test comes first and returns before the
  sharpness is computed. The comparison \<^verbatim>\<open>sharpness < 50\<close> is the one of the reals: the
  double is a real number and 50 is exact.
\<close>

definition check_image_quality ::
  "providers \<Rightarrow> ndarray \<Rightarrow> world \<Rightarrow> (exn + bool \<times> string) \<times> world" where
  "check_image_quality P img w =
     (if width img < 800 \<or> height img < 600
      then (Inr (False, ''Image resolution too low (min 1200x900 pixels required)''), w)
      else
        (let w1 = record_call Laplacian_var w in
         case laplacian_var P img of
           Inl e \<Rightarrow> (Inl e, w1)
         | Inr sharpness \<Rightarrow>
             if sharpness < 50
             then (Inr (False, ''Image is too blurry (sharpness score: ''
                                 @ format_1f P sharpness @ '')''), w1)
             else (Inr (True, ''Image quality OK''), w1)))"

text \<open>
  \<^verbatim>\<open>mrz.name\<close> followed by the rest of the computation: the value when the object has
  the attribute, \<^verbatim>\<open>AttributeError\<close> when it has not.
\<close>

definition attr :: "string \<Rightarrow> 'a option \<Rightarrow> ('a \<Rightarrow> exn + 'b) \<Rightarrow> exn + 'b" where
  "attr name v rest = (case v of None \<Rightarrow> Inl (AttributeError name) | Some x \<Rightarrow> rest x)"

text \<open>
  \<^verbatim>\<open>validate_mrz\<close>: the picture is written to the fixed name \<^verbatim>\<open>temp_passport.jpg\<close>,
  PassportEye reads that file, and the result is refused when
  \<^verbatim>\<open>not hasattr(mrz, 'valid_score') or mrz.valid_score <= 50\<close>: the two disjuncts are
  the two refusing branches on \<open>valid_score\<close>. Only then is the dictionary built, its
  values read from the object one after the other in the order written, none of them
  guarded by \<^verbatim>\<open>hasattr\<close>. \<^verbatim>\<open>cv2.imwrite\<close> is taken to store the file; the code does
  not look at what it returns. No statement removes the file.
\<close>

definition validate_mrz ::
  "providers \<Rightarrow> ndarray \<Rightarrow> world \<Rightarrow> (exn + bool \<times> mrz_data option) \<times> world" where
  "validate_mrz P img w =
     (let temp_path = ''temp_passport.jpg'';
          w1 = record_call (Imwrite temp_path)
                 (w\<lparr>files := (files w)(temp_path \<mapsto> imencode P img)\<rparr>);
          w2 = record_call (Read_mrz temp_path) w1
      in case read_mrz P (files w2 temp_path) of
           Inl e \<Rightarrow> (Inl e, w2)
         | Inr None \<Rightarrow> (Inr (False, None), w2)
         | Inr (Some mrz) \<Rightarrow>
             (case valid_score mrz of
                None \<Rightarrow> (Inr (False, None), w2)
              | Some score \<Rightarrow>
                  if score \<le> 50
                  then (Inr (False, None), w2)
                  else
                   (case
                      attr ''country'' (country mrz) (\<lambda>c.
                      attr ''number'' (number mrz) (\<lambda>n.
                      attr ''date_of_birth'' (date_of_birth mrz) (\<lambda>b.
                      attr ''expiration_date'' (expiration_date mrz) (\<lambda>x.
                      attr ''names'' (names mrz) (\<lambda>g.
                      attr ''surname'' (surname mrz) (\<lambda>s.
                      attr ''sex'' (sex mrz) (\<lambda>sx.
                      attr ''nationality'' (nationality mrz) (\<lambda>nl.
                      attr ''valid_number'' (valid_number mrz) (\<lambda>vn.
                      attr ''valid_date_of_birth'' (valid_date_of_birth mrz) (\<lambda>vb.
                      attr ''valid_expiration_date'' (valid_expiration_date mrz) (\<lambda>vx.
                      attr ''valid_composite'' (valid_composite mrz) (\<lambda>vc.
                        Inr \<lparr> m_country = c,
                              m_passport_number = n,
                              m_birth_date = b,
                              m_expiry_date = x,
                              m_name = g,
                              m_surname = s,
                              m_gender = sx,
                              m_nationality = nl,
                              m_validation_details =
                                \<lparr> d_valid_score = score,
                                  d_number_valid = vn,
                                  d_dob_valid = vb,
                                  d_expiry_valid = vx,
                                  d_composite_valid = vc \<rparr> \<rparr>))))))))))))
                    of
                      Inl e \<Rightarrow> (Inl e, w2)
                    | Inr d \<Rightarrow> (Inr (True, Some d), w2))))"

text \<open>
  \<^verbatim>\<open>check_passport_layout\<close>: only \<^verbatim>\<open>faces[0]\<close> is looked at. \<^verbatim>\<open>width * 0.4\<close> is taken
  in the reals. The double product rounds to the exact value when \<open>0.4 * width\<close> is an
  integer and stays strictly between the neighbouring integers otherwise, so comparing
  the integer \<open>x\<close> with it gives the same answer for every width a picture can have.
\<close>

definition check_passport_layout ::
  "providers \<Rightarrow> ndarray \<Rightarrow> world \<Rightarrow> (exn + bool \<times> string) \<times> world" where
  "check_passport_layout P img w =
     (let w1 = record_call DetectMultiScale w in
      case detectMultiScale P img of
        Inl e \<Rightarrow> (Inl e, w1)
      | Inr faces \<Rightarrow>
          (case faces of
             [] \<Rightarrow> (Inr (False, ''No face detected in passport photo''), w1)
           | (x, y, fw, fh) # _ \<Rightarrow>
               if real_of_int x > real (width img) * 0.4
               then (Inr (False, ''Face position incorrect (should be on right side)''), w1)
               else (Inr (True, ''Basic layout OK''), w1)))"

section \<open>The handler\<close>

text \<open>
  \<^verbatim>\<open>validate_passport\<close>, from the result of \<^verbatim>\<open>cv2.imdecode\<close> on. The whole body sits in
  \<^verbatim>\<open>try ... except Exception\<close>, which turns every exception, the handler's own
  \<^verbatim>\<open>HTTPException(400)\<close> included, into \<^verbatim>\<open>HTTPException(500)\<close>.
\<close>

definition processing_error :: "providers \<Rightarrow> exn \<Rightarrow> response" where
  "processing_error P e = Raised 500 (''Processing error: '' @ str_exn P e)"

definition validate_passport ::
  "providers \<Rightarrow> ndarray option \<Rightarrow> world \<Rightarrow> response \<times> world" where
  "validate_passport P decoded w =
     (case decoded of
        None \<Rightarrow> (processing_error P (HTTPException 400 ''Invalid image file''), w)
      | Some img \<Rightarrow>
         (case check_image_quality P img w of
            (Inl e, w1) \<Rightarrow> (processing_error P e, w1)
          | (Inr (quality_ok, quality_msg), w1) \<Rightarrow>
              if \<not> quality_ok
              then (JSONResponse 400
                      (JObj [(''valid'', JBool False), (''error'', JStr quality_msg)]), w1)
              else
               (case validate_mrz P img w1 of
                  (Inl e, w2) \<Rightarrow> (processing_error P e, w2)
                | (Inr (mrz_ok, mrz_data), w2) \<Rightarrow>
                    if \<not> mrz_ok
                    then (JSONResponse 400
                            (JObj [(''valid'', JBool False),
                                   (''error'', JStr ''MRZ not found or invalid'')]), w2)
                    else
                     (case check_passport_layout P img w2 of
                        (Inl e, w3) \<Rightarrow> (processing_error P e, w3)
                      | (Inr (layout_ok, layout_msg), w3) \<Rightarrow>
                          if \<not> layout_ok
                          then (JSONResponse 400
                                  (JObj [(''valid'', JBool False),
                                         (''error'', JStr layout_msg)]), w3)
                          else
                           (case mrz_data of
                              None \<Rightarrow>
                                (processing_error P
                                   (LibraryError
                                      ''NoneType object is not subscriptable''), w3)
                            | Some d \<Rightarrow>
                                (Returned (JObj
                                   [(''valid'', JBool True),
                                    (''country'', JStr (m_country d)),
                                    (''passport_number'', JStr (m_passport_number d)),
                                    (''birth_date'', JStr (m_birth_date d)),
                                    (''expiry_date'', JStr (m_expiry_date d)),
                                    (''name'', JStr (m_surname d @ '' '' @ m_name d)),
                                    (''gender'', JStr (m_gender d)),
                                    (''nationality'', JStr (m_nationality d)),
                                    (''checks'', JObj
                                       [(''image_quality'', JStr quality_msg),
                                        (''layout_validation'', JStr layout_msg)])]),
                                 w3))))))"

section \<open>The check digit\<close>

text \<open>
  Modelled from the spec: the check digit routine. \<^verbatim>\<open>validate_mrz\<close> only reads the flags
  \<^verbatim>\<open>valid_number\<close>, \<^verbatim>\<open>valid_date_of_birth\<close>, \<^verbatim>\<open>valid_expiration_date\<close> and
  \<^verbatim>\<open>valid_composite\<close> that PassportEye has computed; the routine computing them is not
  part of the sources. The spec gives it: the characters \<^verbatim>\<open>0-9\<close> count as themselves,
  \<^verbatim>\<open>A-Z\<close> as 10 to 35, the filler \<^verbatim>\<open><\<close> as 0; the weights 7, 3, 1 repeat along the
  field; the sum of the products modulo 10 is compared with the stored check digit.
  The spec names no value for any other character, so a field holding one has no
  check digit here and is not valid.
\<close>

definition char_value :: "char \<Rightarrow> nat option" where
  "char_value c =
     (let n = (of_char c :: nat) in
      if 48 \<le> n \<and> n \<le> 57 then Some (n - 48)
      else if 65 \<le> n \<and> n \<le> 90 then Some (n - 55)
      else if c = CHR ''<'' then Some 0
      else None)"

definition weight :: "nat \<Rightarrow> nat" where
  "weight i = (if i mod 3 = 0 then 7 else if i mod 3 = 1 then 3 else 1)"

text \<open>The sum over the field from position \<open>i\<close> on, character by character.\<close>

fun weighted_sum :: "nat \<Rightarrow> string \<Rightarrow> nat option" where
  "weighted_sum i [] = Some 0"
| "weighted_sum i (c # cs) =
     (case char_value c of
        None \<Rightarrow> None
      | Some v \<Rightarrow>
          (case weighted_sum (Suc i) cs of
             None \<Rightarrow> None
           | Some t \<Rightarrow> Some (v * weight i + t)))"

definition check_digit :: "string \<Rightarrow> nat option" where
  "check_digit field = map_option (\<lambda>t. t mod 10) (weighted_sum 0 field)"

definition digit_char :: "nat \<Rightarrow> char" where
  "digit_char d = ''0123456789'' ! (d mod 10)"

text \<open>The validator: the stored check digit is the character printed after the field.\<close>

definition checksum_valid :: "string \<Rightarrow> char \<Rightarrow> bool" where
  "checksum_valid field stored =
     (case check_digit field of
        None \<Rightarrow> False
      | Some d \<Rightarrow> stored = digit_char d)"

text \<open>
  The sum as the spec writes it, \<open>sum(value_i * weight_i) mod 10\<close>, for a field all of
  whose characters have a value.
\<close>

definition spec_check_digit :: "string \<Rightarrow> nat" where
  "spec_check_digit field =
     (\<Sum>i < length field. the (char_value (field ! i)) * weight i) mod 10"

definition mrz_chars :: "string \<Rightarrow> bool" where
  "mrz_chars field = list_all (\<lambda>c. char_value c \<noteq> None) field"

section \<open>Example inputs\<close>

text \<open>
  Stand-ins for the libraries, used to run the model on concrete inputs: the sharpness,
  the PassportEye result and the face boxes are given beforehand.
\<close>

fun show_nat :: "nat \<Rightarrow> string" where
  "show_nat n =
     (if n < 10 then [digit_char n] else show_nat (n div 10) @ [digit_char (n mod 10)])"

declare show_nat.simps [simp del]

text \<open>One decimal, ties to the even digit, as \<^verbatim>\<open>format(x, '.1f')\<close> prints a double.\<close>

definition decimal_1f :: "real \<Rightarrow> string" where
  "decimal_1f r =
     (let a = \<bar>r\<bar> * 10;
          t = nat \<lfloor>a\<rfloor>;
          f = a - real t;
          u = (if f > 1 / 2 \<or> (f = 1 / 2 \<and> odd t) then Suc t else t)
      in (if r < 0 then ''-'' else []) @ show_nat (u div 10) @ ''.'' @ show_nat (u mod 10))"

definition quoted :: "string \<Rightarrow> string" where
  "quoted s = CHR 0x27 # s @ [CHR 0x27]"

fun stub_str :: "exn \<Rightarrow> string" where
  "stub_str (HTTPException code detail) = show_nat (nat code) @ '': '' @ detail"
| "stub_str (AttributeError name) =
     quoted ''MRZ'' @ '' object has no attribute '' @ quoted name"
| "stub_str (LibraryError msg) = msg"

definition stub_providers ::
  "real \<Rightarrow> mrz option \<Rightarrow> (int \<times> int \<times> int \<times> int) list \<Rightarrow> providers" where
  "stub_providers sharpness found faces =
     \<lparr> laplacian_var = (\<lambda>_. Inr sharpness),
       format_1f = decimal_1f,
       imencode = samples,
       read_mrz = (\<lambda>_. Inr found),
       detectMultiScale = (\<lambda>_. Inr faces),
       str_exn = stub_str \<rparr>"

definition blank :: "nat \<Rightarrow> nat \<Rightarrow> ndarray" where
  "blank h w = \<lparr> height = h, width = w, samples = replicate (h * w * 3) 0 \<rparr>"

definition fresh :: world where
  "fresh = \<lparr> files = Map.empty, calls = [] \<rparr>"

text \<open>The passport specimen of ICAO Doc 9303, read with the score \<open>score\<close>.\<close>

definition specimen :: "int \<Rightarrow> mrz" where
  "specimen score =
     \<lparr> valid_score = Some score,
       country = Some ''UTO'',
       number = Some ''L898902C3'',
       date_of_birth = Some ''740812'',
       expiration_date = Some ''120415'',
       names = Some ''ANNA MARIA'',
       surname = Some ''ERIKSSON'',
       sex = Some ''F'',
       nationality = Some ''UTO'',
       valid_number = Some True,
       valid_date_of_birth = Some True,
       valid_expiration_date = Some True,
       valid_composite = Some (score = 100) \<rparr>"

text \<open>
  What PassportEye returns for a visa: the same attributes, without
  \<^verbatim>\<open>valid_composite\<close>.
\<close>

definition visa :: "int \<Rightarrow> mrz" where
  "visa score = (specimen score)\<lparr> valid_composite := None \<rparr>"

text \<open>Stand-ins that raise.\<close>

definition failing_laplacian :: "providers \<Rightarrow> providers" where
  "failing_laplacian P = P\<lparr> laplacian_var := (\<lambda>_. Inl (LibraryError ''OpenCV error'')) \<rparr>"

definition failing_detector :: "providers \<Rightarrow> providers" where
  "failing_detector P = P\<lparr> detectMultiScale := (\<lambda>_. Inl (LibraryError ''OpenCV error'')) \<rparr>"

section \<open>Facts about the example inputs\<close>

lemma width_blank: "width (blank h w) = w"
  by (simp add: blank_def)

lemma height_blank: "height (blank h w) = h"
  by (simp add: blank_def)

lemma stub_sel:
  "laplacian_var (stub_providers s m fs) = (\<lambda>_. Inr s)"
  "format_1f (stub_providers s m fs) = decimal_1f"
  "imencode (stub_providers s m fs) = samples"
  "read_mrz (stub_providers s m fs) = (\<lambda>_. Inr m)"
  "detectMultiScale (stub_providers s m fs) = (\<lambda>_. Inr fs)"
  "str_exn (stub_providers s m fs) = stub_str"
  by (simp_all add: stub_providers_def)

lemma decimal_1f_example: "decimal_1f (25 / 2) = ''12.5''"
  by (simp add: decimal_1f_def show_nat.simps digit_char_def Let_def)

section \<open>The quality gate\<close>

text \<open>
  C4. A picture narrower than 800 or lower than 600 is refused with the resolution
  message whatever the sharpness is: the world is returned as it was, so the sharpness
  is not even computed. For a picture of at least 800 by 600 whose sharpness is \<open>s\<close>,
  the gate refuses with the too-blurry message, which holds the formatted \<open>s\<close>, exactly
  when \<open>s < 50\<close>, and accepts with "Image quality OK" exactly when it is not.
\<close>

theorem check_image_quality_policy:
  "(width img < 800 \<or> height img < 600 \<longrightarrow>
      check_image_quality P img w =
        (Inr (False, ''Image resolution too low (min 1200x900 pixels required)''), w))
   \<and> (800 \<le> width img \<and> 600 \<le> height img \<and> laplacian_var P img = Inr s \<longrightarrow>
        (fst (check_image_quality P img w) =
           Inr (False, ''Image is too blurry (sharpness score: '' @ format_1f P s @ '')'')
         \<longleftrightarrow> s < 50)
      \<and> (fst (check_image_quality P img w) = Inr (True, ''Image quality OK'')
         \<longleftrightarrow> \<not> s < 50))"
  by (simp add: check_image_quality_def Let_def)

theorem check_image_quality_policy_witness:
  "check_image_quality (stub_providers 900 None []) (blank 300 400) fresh =
     (Inr (False, ''Image resolution too low (min 1200x900 pixels required)''), fresh)
   \<and> fst (check_image_quality (stub_providers (25 / 2) None []) (blank 900 1200) fresh) =
       Inr (False, ''Image is too blurry (sharpness score: 12.5)'')
   \<and> fst (check_image_quality (stub_providers 50 None []) (blank 900 1200) fresh) =
       Inr (True, ''Image quality OK'')"
  using check_image_quality_policy
          [where img = "blank 300 400" and P = "stub_providers 900 None []"
             and w = fresh and s = 900]
        check_image_quality_policy
          [where img = "blank 900 1200" and P = "stub_providers (25 / 2) None []"
             and w = fresh and s = "25 / 2"]
        check_image_quality_policy
          [where img = "blank 900 1200" and P = "stub_providers 50 None []"
             and w = fresh and s = 50]
  by (simp add: width_blank height_blank stub_sel decimal_1f_example)

text \<open>
  C10. The resolution refusal is one fixed text, and it names 1200x900 as the minimum;
  the test that produces it is \<open>width < 800 \<or> height < 600\<close>. So a picture of at least
  800 by 600 never gets that refusal, also when it is smaller than 1200 by 900.
\<close>

theorem resolution_message_threshold:
  "(width img < 800 \<or> height img < 600 \<longrightarrow>
      fst (check_image_quality P img w) =
        Inr (False, ''Image resolution too low (min 1200x900 pixels required)''))
   \<and> (800 \<le> width img \<and> 600 \<le> height img \<longrightarrow>
      fst (check_image_quality P img w) \<noteq>
        Inr (False, ''Image resolution too low (min 1200x900 pixels required)''))"
  by (simp add: check_image_quality_def Let_def split: sum.split)

theorem resolution_message_threshold_witness:
  "width (blank 300 400) < 800
   \<and> fst (check_image_quality (stub_providers 900 None []) (blank 300 400) fresh) =
       Inr (False, ''Image resolution too low (min 1200x900 pixels required)'')
   \<and> 800 \<le> width (blank 600 800) \<and> 600 \<le> height (blank 600 800)
   \<and> width (blank 600 800) < 1200 \<and> height (blank 600 800) < 900
   \<and> fst (check_image_quality (stub_providers 900 None []) (blank 600 800) fresh) \<noteq>
       Inr (False, ''Image resolution too low (min 1200x900 pixels required)'')"
  using resolution_message_threshold
          [where img = "blank 300 400" and P = "stub_providers 900 None []" and w = fresh]
        resolution_message_threshold
          [where img = "blank 600 800" and P = "stub_providers 900 None []" and w = fresh]
  by (simp add: width_blank height_blank)

section \<open>The layout check\<close>

text \<open>
  C5. When the detector returns no box the check refuses with "No face detected in
  passport photo". Otherwise the answer depends on the first box alone, and on its
  \<open>x\<close> alone: the check refuses with "Face position incorrect (should be on right
  side)" exactly when \<open>x\<close> is greater than 0.4 times the width, and accepts with
  "Basic layout OK" exactly when it is not, whatever the other boxes are.
\<close>

theorem check_passport_layout_policy:
  "(detectMultiScale P img = Inr [] \<longrightarrow>
      fst (check_passport_layout P img w) =
        Inr (False, ''No face detected in passport photo''))
   \<and> (detectMultiScale P img = Inr ((x, y, fw, fh) # others) \<longrightarrow>
        (fst (check_passport_layout P img w) =
           Inr (False, ''Face position incorrect (should be on right side)'')
         \<longleftrightarrow> real_of_int x > 0.4 * real (width img))
      \<and> (fst (check_passport_layout P img w) = Inr (True, ''Basic layout OK'')
         \<longleftrightarrow> \<not> real_of_int x > 0.4 * real (width img)))"
  by (simp add: check_passport_layout_def Let_def mult.commute)

theorem check_passport_layout_policy_witness:
  "fst (check_passport_layout (stub_providers 900 None []) (blank 900 1200) fresh) =
     Inr (False, ''No face detected in passport photo'')
   \<and> fst (check_passport_layout
            (stub_providers 900 None [(600, 200, 300, 300)]) (blank 900 1200) fresh) =
       Inr (False, ''Face position incorrect (should be on right side)'')
   \<and> fst (check_passport_layout
            (stub_providers 900 None [(120, 200, 300, 300), (700, 50, 90, 90)])
            (blank 900 1200) fresh) =
       Inr (True, ''Basic layout OK'')
   \<and> fst (check_passport_layout
            (stub_providers 900 None [(480, 200, 300, 300)]) (blank 900 1200) fresh) =
       Inr (True, ''Basic layout OK'')"
  using check_passport_layout_policy
          [where P = "stub_providers 900 None []" and img = "blank 900 1200" and w = fresh]
        check_passport_layout_policy
          [where P = "stub_providers 900 None [(600, 200, 300, 300)]"
             and img = "blank 900 1200" and w = fresh
             and x = 600 and y = 200 and fw = 300 and fh = 300 and others = "[]"]
        check_passport_layout_policy
          [where P = "stub_providers 900 None [(120, 200, 300, 300), (700, 50, 90, 90)]"
             and img = "blank 900 1200" and w = fresh
             and x = 120 and y = 200 and fw = 300 and fh = 300
             and others = "[(700, 50, 90, 90)]"]
        check_passport_layout_policy
          [where P = "stub_providers 900 None [(480, 200, 300, 300)]"
             and img = "blank 900 1200" and w = fresh
             and x = 480 and y = 200 and fw = 300 and fh = 300 and others = "[]"]
  by (simp add: width_blank stub_sel)

section \<open>What each check does to the world, and what it reads from it\<close>

lemma check_image_quality_world:
  "snd (check_image_quality P img w) =
     (if width img < 800 \<or> height img < 600 then w else record_call Laplacian_var w)"
  by (simp add: check_image_quality_def Let_def split: sum.split)

lemma check_image_quality_fst:
  "fst (check_image_quality P img w) = fst (check_image_quality P img w')"
  by (simp add: check_image_quality_def Let_def split: sum.split)

lemma validate_mrz_world:
  "snd (validate_mrz P img w) =
     w\<lparr>files := (files w)(''temp_passport.jpg'' \<mapsto> imencode P img),
       calls := calls w @ [Imwrite ''temp_passport.jpg'', Read_mrz ''temp_passport.jpg'']\<rparr>"
  by (simp add: validate_mrz_def record_call_def Let_def
           split: sum.split option.split)

text \<open>
  PassportEye is given the file that \<^verbatim>\<open>cv2.imwrite\<close> has just stored, so what was under
  that name before does not reach it.
\<close>

lemma validate_mrz_reads:
  "fst (validate_mrz P img w) =
     (case read_mrz P (Some (imencode P img)) of
        Inl e \<Rightarrow> Inl e
      | Inr None \<Rightarrow> Inr (False, None)
      | Inr (Some mrz) \<Rightarrow>
          (case valid_score mrz of
             None \<Rightarrow> Inr (False, None)
           | Some score \<Rightarrow>
               if score \<le> 50 then Inr (False, None)
               else
                (case
                   attr ''country'' (country mrz) (\<lambda>c.
                   attr ''number'' (number mrz) (\<lambda>n.
                   attr ''date_of_birth'' (date_of_birth mrz) (\<lambda>b.
                   attr ''expiration_date'' (expiration_date mrz) (\<lambda>x.
                   attr ''names'' (names mrz) (\<lambda>g.
                   attr ''surname'' (surname mrz) (\<lambda>s.
                   attr ''sex'' (sex mrz) (\<lambda>sx.
                   attr ''nationality'' (nationality mrz) (\<lambda>nl.
                   attr ''valid_number'' (valid_number mrz) (\<lambda>vn.
                   attr ''valid_date_of_birth'' (valid_date_of_birth mrz) (\<lambda>vb.
                   attr ''valid_expiration_date'' (valid_expiration_date mrz) (\<lambda>vx.
                   attr ''valid_composite'' (valid_composite mrz) (\<lambda>vc.
                     Inr \<lparr> m_country = c,
                           m_passport_number = n,
                           m_birth_date = b,
                           m_expiry_date = x,
                           m_name = g,
                           m_surname = s,
                           m_gender = sx,
                           m_nationality = nl,
                           m_validation_details =
                             \<lparr> d_valid_score = score,
                               d_number_valid = vn,
                               d_dob_valid = vb,
                               d_expiry_valid = vx,
                               d_composite_valid = vc \<rparr> \<rparr>))))))))))))
                 of
                   Inl e \<Rightarrow> Inl e
                 | Inr d \<Rightarrow> Inr (True, Some d))))"
  by (simp add: validate_mrz_def record_call_def Let_def
           split: sum.split option.split)

lemma validate_mrz_fst:
  "fst (validate_mrz P img w) = fst (validate_mrz P img w')"
  by (simp only: validate_mrz_reads)

lemma check_passport_layout_world:
  "snd (check_passport_layout P img w) = record_call DetectMultiScale w"
  by (simp add: check_passport_layout_def Let_def split: sum.split list.split)

lemma check_passport_layout_fst:
  "fst (check_passport_layout P img w) = fst (check_passport_layout P img w')"
  by (simp add: check_passport_layout_def Let_def split: sum.split list.split)

section \<open>The MRZ check\<close>

text \<open>
  When PassportEye's result has all the attributes, the check passes exactly when the
  score is greater than 50, and the dictionary it returns holds the fields read and the
  four validity flags as PassportEye set them, whatever they are.
\<close>

lemma validate_mrz_complete:
  assumes "read_mrz P (Some (imencode P img)) = Inr (Some m)"
    and "valid_score m = Some score"
    and "country m = Some c" "number m = Some n" "date_of_birth m = Some b"
    and "expiration_date m = Some x" "names m = Some g" "surname m = Some s"
    and "sex m = Some sx" "nationality m = Some nl"
    and "valid_number m = Some vn" "valid_date_of_birth m = Some vb"
    and "valid_expiration_date m = Some vx" "valid_composite m = Some vc"
  shows "fst (validate_mrz P img w) =
           (if score \<le> 50 then Inr (False, None)
            else Inr (True, Some
              \<lparr> m_country = c,
                m_passport_number = n,
                m_birth_date = b,
                m_expiry_date = x,
                m_name = g,
                m_surname = s,
                m_gender = sx,
                m_nationality = nl,
                m_validation_details =
                  \<lparr> d_valid_score = score,
                    d_number_valid = vn,
                    d_dob_valid = vb,
                    d_expiry_valid = vx,
                    d_composite_valid = vc \<rparr> \<rparr>))"
  using assms by (simp add: validate_mrz_reads attr_def)

lemma validate_mrz_specimen:
  "fst (validate_mrz (stub_providers 900 (Some (specimen 50)) []) (blank 900 1200) fresh) =
     Inr (False, None)
   \<and> fst (validate_mrz (stub_providers 900 (Some (specimen 51)) []) (blank 900 1200) fresh) =
       Inr (True, Some
         \<lparr> m_country = ''UTO'',
           m_passport_number = ''L898902C3'',
           m_birth_date = ''740812'',
           m_expiry_date = ''120415'',
           m_name = ''ANNA MARIA'',
           m_surname = ''ERIKSSON'',
           m_gender = ''F'',
           m_nationality = ''UTO'',
           m_validation_details =
             \<lparr> d_valid_score = 51,
               d_number_valid = True,
               d_dob_valid = True,
               d_expiry_valid = True,
               d_composite_valid = False \<rparr> \<rparr>)"
  by (simp add: validate_mrz_reads attr_def stub_sel specimen_def)

section \<open>The handler, stage by stage\<close>

text \<open>
  The four ways through \<^verbatim>\<open>validate_passport\<close> that end without an exception. Each
  gives the response and the world left behind, which is the world after the last check
  that ran.
\<close>

lemma handler_quality_refused:
  assumes "fst (check_image_quality P img w) = Inr (False, qmsg)"
  shows "validate_passport P (Some img) w =
           (JSONResponse 400 (JObj [(''valid'', JBool False), (''error'', JStr qmsg)]),
            snd (check_image_quality P img w))"
proof (cases "check_image_quality P img w")
  case (Pair r w1)
  with assms have "r = Inr (False, qmsg)" by simp
  with Pair show ?thesis by (simp add: validate_passport_def)
qed

lemma handler_mrz_refused:
  assumes "fst (check_image_quality P img w) = Inr (True, qmsg)"
    and "fst (validate_mrz P img (snd (check_image_quality P img w))) = Inr (False, d)"
  shows "validate_passport P (Some img) w =
           (JSONResponse 400
              (JObj [(''valid'', JBool False), (''error'', JStr ''MRZ not found or invalid'')]),
            snd (validate_mrz P img (snd (check_image_quality P img w))))"
proof (cases "check_image_quality P img w")
  case q: (Pair r w1)
  with assms(1) have r: "r = Inr (True, qmsg)" by simp
  show ?thesis
  proof (cases "validate_mrz P img w1")
    case z: (Pair r2 w2)
    with assms(2) q have "r2 = Inr (False, d)" by simp
    with q r z show ?thesis by (simp add: validate_passport_def)
  qed
qed

lemma handler_layout_refused:
  assumes "fst (check_image_quality P img w) = Inr (True, qmsg)"
    and "fst (validate_mrz P img (snd (check_image_quality P img w))) = Inr (True, d)"
    and "fst (check_passport_layout P img
                (snd (validate_mrz P img (snd (check_image_quality P img w))))) =
           Inr (False, lmsg)"
  shows "validate_passport P (Some img) w =
           (JSONResponse 400 (JObj [(''valid'', JBool False), (''error'', JStr lmsg)]),
            snd (check_passport_layout P img
                   (snd (validate_mrz P img (snd (check_image_quality P img w))))))"
proof (cases "check_image_quality P img w")
  case q: (Pair r w1)
  with assms(1) have r: "r = Inr (True, qmsg)" by simp
  show ?thesis
  proof (cases "validate_mrz P img w1")
    case z: (Pair r2 w2)
    with assms(2) q have r2: "r2 = Inr (True, d)" by simp
    show ?thesis
    proof (cases "check_passport_layout P img w2")
      case l: (Pair r3 w3)
      with assms(3) q z have "r3 = Inr (False, lmsg)" by simp
      with q r z r2 l show ?thesis by (simp add: validate_passport_def)
    qed
  qed
qed

lemma handler_accepts:
  assumes "fst (check_image_quality P img w) = Inr (True, qmsg)"
    and "fst (validate_mrz P img (snd (check_image_quality P img w))) = Inr (True, Some d)"
    and "fst (check_passport_layout P img
                (snd (validate_mrz P img (snd (check_image_quality P img w))))) =
           Inr (True, lmsg)"
  shows "validate_passport P (Some img) w =
           (Returned (JObj
              [(''valid'', JBool True),
               (''country'', JStr (m_country d)),
               (''passport_number'', JStr (m_passport_number d)),
               (''birth_date'', JStr (m_birth_date d)),
               (''expiry_date'', JStr (m_expiry_date d)),
               (''name'', JStr (m_surname d @ '' '' @ m_name d)),
               (''gender'', JStr (m_gender d)),
               (''nationality'', JStr (m_nationality d)),
               (''checks'', JObj
                  [(''image_quality'', JStr qmsg),
                   (''layout_validation'', JStr lmsg)])]),
            snd (check_passport_layout P img
                   (snd (validate_mrz P img (snd (check_image_quality P img w))))))"
proof (cases "check_image_quality P img w")
  case q: (Pair r w1)
  with assms(1) have r: "r = Inr (True, qmsg)" by simp
  show ?thesis
  proof (cases "validate_mrz P img w1")
    case z: (Pair r2 w2)
    with assms(2) q have r2: "r2 = Inr (True, Some d)" by simp
    show ?thesis
    proof (cases "check_passport_layout P img w2")
      case l: (Pair r3 w3)
      with assms(3) q z have "r3 = Inr (True, lmsg)" by simp
      with q r z r2 l show ?thesis by (simp add: validate_passport_def)
    qed
  qed
qed

text \<open>The three ways that end in an exception, which the handler turns into status 500.\<close>

lemma handler_quality_raised:
  assumes "fst (check_image_quality P img w) = Inl e"
  shows "validate_passport P (Some img) w =
           (processing_error P e, snd (check_image_quality P img w))"
proof (cases "check_image_quality P img w")
  case (Pair r w1)
  with assms have "r = Inl e" by simp
  with Pair show ?thesis by (simp add: validate_passport_def)
qed

lemma handler_mrz_raised:
  assumes "fst (check_image_quality P img w) = Inr (True, qmsg)"
    and "fst (validate_mrz P img (snd (check_image_quality P img w))) = Inl e"
  shows "validate_passport P (Some img) w =
           (processing_error P e,
            snd (validate_mrz P img (snd (check_image_quality P img w))))"
proof (cases "check_image_quality P img w")
  case q: (Pair r w1)
  with assms(1) have r: "r = Inr (True, qmsg)" by simp
  show ?thesis
  proof (cases "validate_mrz P img w1")
    case z: (Pair r2 w2)
    with assms(2) q have "r2 = Inl e" by simp
    with q r z show ?thesis by (simp add: validate_passport_def)
  qed
qed

lemma handler_layout_raised:
  assumes "fst (check_image_quality P img w) = Inr (True, qmsg)"
    and "fst (validate_mrz P img (snd (check_image_quality P img w))) = Inr (True, d)"
    and "fst (check_passport_layout P img
                (snd (validate_mrz P img (snd (check_image_quality P img w))))) = Inl e"
  shows "validate_passport P (Some img) w =
           (processing_error P e,
            snd (check_passport_layout P img
                   (snd (validate_mrz P img (snd (check_image_quality P img w))))))"
proof (cases "check_image_quality P img w")
  case q: (Pair r w1)
  with assms(1) have r: "r = Inr (True, qmsg)" by simp
  show ?thesis
  proof (cases "validate_mrz P img w1")
    case z: (Pair r2 w2)
    with assms(2) q have r2: "r2 = Inr (True, d)" by simp
    show ?thesis
    proof (cases "check_passport_layout P img w2")
      case l: (Pair r3 w3)
      with assms(3) q z have "r3 = Inl e" by simp
      with q r z r2 l show ?thesis by (simp add: validate_passport_def)
    qed
  qed
qed

lemma quality_raised_large:
  "fst (check_image_quality P img w) = Inl e \<Longrightarrow>
     \<not> (width img < 800 \<or> height img < 600)"
  by (auto simp: check_image_quality_def)

lemma validate_mrz_passed_Some:
  assumes "fst (validate_mrz P img w) = Inr (True, found)"
  shows "\<exists>d. found = Some d"
  using assms
  by (auto simp: validate_mrz_reads split: sum.splits option.splits if_splits)

text \<open>The calls made by the checks that ran, when the picture is large enough.\<close>

lemma quality_passed_large:
  "fst (check_image_quality P img w) = Inr (True, qmsg) \<Longrightarrow>
     \<not> (width img < 800 \<or> height img < 600)"
  by (auto simp: check_image_quality_def)

lemma world_after_quality:
  assumes "fst (check_image_quality P img w) = Inr (True, qmsg)"
  shows "snd (check_image_quality P img w) = w\<lparr>calls := calls w @ [Laplacian_var]\<rparr>"
  using quality_passed_large [OF assms]
  by (simp add: check_image_quality_world record_call_def)

lemma world_after_mrz:
  assumes "fst (check_image_quality P img w) = Inr (True, qmsg)"
  shows "snd (validate_mrz P img (snd (check_image_quality P img w))) =
           w\<lparr>files := (files w)(''temp_passport.jpg'' \<mapsto> imencode P img),
             calls := calls w @ [Laplacian_var, Imwrite ''temp_passport.jpg'',
                                 Read_mrz ''temp_passport.jpg'']\<rparr>"
  by (simp add: validate_mrz_world world_after_quality [OF assms])

lemma world_after_layout:
  assumes "fst (check_image_quality P img w) = Inr (True, qmsg)"
  shows "snd (check_passport_layout P img
                (snd (validate_mrz P img (snd (check_image_quality P img w))))) =
           w\<lparr>files := (files w)(''temp_passport.jpg'' \<mapsto> imencode P img),
             calls := calls w @ [Laplacian_var, Imwrite ''temp_passport.jpg'',
                                 Read_mrz ''temp_passport.jpg'', DetectMultiScale]\<rparr>"
  by (simp add: check_passport_layout_world record_call_def world_after_mrz [OF assms])

text \<open>The verdicts of the first and the last check, without the world.\<close>

lemma check_image_quality_reads:
  "fst (check_image_quality P img w) =
     (if width img < 800 \<or> height img < 600
      then Inr (False, ''Image resolution too low (min 1200x900 pixels required)'')
      else case laplacian_var P img of
             Inl e \<Rightarrow> Inl e
           | Inr sharpness \<Rightarrow>
               if sharpness < 50
               then Inr (False, ''Image is too blurry (sharpness score: ''
                                 @ format_1f P sharpness @ '')'')
               else Inr (True, ''Image quality OK''))"
  by (simp add: check_image_quality_def Let_def split: sum.split)

lemma check_passport_layout_reads:
  "fst (check_passport_layout P img w) =
     (case detectMultiScale P img of
        Inl e \<Rightarrow> Inl e
      | Inr faces \<Rightarrow>
          (case faces of
             [] \<Rightarrow> Inr (False, ''No face detected in passport photo'')
           | (x, y, fw, fh) # _ \<Rightarrow>
               if real_of_int x > real (width img) * 0.4
               then Inr (False, ''Face position incorrect (should be on right side)'')
               else Inr (True, ''Basic layout OK'')))"
  by (simp add: check_passport_layout_def Let_def split: sum.split list.split)

text \<open>A check raises, refuses or passes.\<close>

lemma verdict_cases:
  fixes r :: "exn + bool \<times> 'a"
  obtains (raised) e where "r = Inl e"
    | (refused) m where "r = Inr (False, m)"
    | (passed) m where "r = Inr (True, m)"
  by (cases r) auto

text \<open>The calls of a run are always a beginning of the same four.\<close>

lemma validate_passport_calls:
  "calls (snd (validate_passport P (Some img) w)) \<in>
     {calls w,
      calls w @ [Laplacian_var],
      calls w @ [Laplacian_var, Imwrite ''temp_passport.jpg'', Read_mrz ''temp_passport.jpg''],
      calls w @ [Laplacian_var, Imwrite ''temp_passport.jpg'', Read_mrz ''temp_passport.jpg'',
                 DetectMultiScale]}"
proof -
  let ?w1 = "snd (check_image_quality P img w)"
  let ?w2 = "snd (validate_mrz P img ?w1)"
  show ?thesis
  proof (cases "fst (check_image_quality P img w)" rule: verdict_cases)
    case (raised e)
    from quality_raised_large [OF raised] show ?thesis
      by (simp add: handler_quality_raised [OF raised] check_image_quality_world
                    record_call_def)
  next
    case (refused qmsg)
    show ?thesis
      by (simp add: handler_quality_refused [OF refused] check_image_quality_world
                    record_call_def)
  next
    case q: (passed qmsg)
    show ?thesis
    proof (cases "fst (validate_mrz P img ?w1)" rule: verdict_cases)
      case (raised e)
      show ?thesis
        by (simp add: handler_mrz_raised [OF q raised] world_after_mrz [OF q])
    next
      case (refused d)
      show ?thesis
        by (simp add: handler_mrz_refused [OF q refused] world_after_mrz [OF q])
    next
      case z: (passed found)
      from validate_mrz_passed_Some [OF z] obtain d where d: "found = Some d" ..
      show ?thesis
      proof (cases "fst (check_passport_layout P img ?w2)" rule: verdict_cases)
        case (raised e)
        show ?thesis
          by (simp add: handler_layout_raised [OF q z raised] world_after_layout [OF q])
      next
        case (refused lmsg)
        show ?thesis
          by (simp add: handler_layout_refused [OF q z refused] world_after_layout [OF q])
      next
        case (passed lmsg)
        show ?thesis
          by (simp add: handler_accepts [OF q z [unfolded d] passed]
                        world_after_layout [OF q])
      qed
    qed
  qed
qed

section \<open>Properties of the handler\<close>

text \<open>
  C1. The checks run in the order quality, MRZ, layout, each at most once, and the first
  one that does not pass ends the run. Every run is one of seven, told apart by what
  the checks give, and each line says what the handler answers and which library calls
  the run has made, all of them, in order:
  \<^item> the quality check refuses: status 400 with its message; no file is written and
    nothing beyond the sharpness is computed;
  \<^item> the quality check passes and the MRZ check refuses: status 400 with the MRZ
    message; the calls are the sharpness, the write and PassportEye, and the face
    detector is not called;
  \<^item> both pass and the layout check refuses: status 400 with its message; the four
    calls, once each;
  \<^item> all three pass: a plain dictionary is returned; the four calls, once each, so no
    check is run a second time;
  \<^item> the quality check raises: status 500; the sharpness call only, no file written;
  \<^item> the MRZ check raises: status 500; the face detector is not called;
  \<^item> the layout check raises: status 500; the four calls, once each.
  Whether a check passes does not depend on the world it is run in. Whatever the
  checks give, the calls of a run are a beginning of the list sharpness, write,
  PassportEye, face detector.
\<close>

theorem validate_passport_short_circuit:
  "(fst (check_image_quality P img w) = Inr (False, qmsg) \<longrightarrow>
      fst (validate_passport P (Some img) w) =
        JSONResponse 400 (JObj [(''valid'', JBool False), (''error'', JStr qmsg)])
      \<and> files (snd (validate_passport P (Some img) w)) = files w
      \<and> calls (snd (validate_passport P (Some img) w)) =
          calls w @ (if width img < 800 \<or> height img < 600 then [] else [Laplacian_var]))
   \<and> (fst (check_image_quality P img w) = Inr (True, qmsg)
        \<and> fst (validate_mrz P img w') = Inr (False, d) \<longrightarrow>
      fst (validate_passport P (Some img) w) =
        JSONResponse 400
          (JObj [(''valid'', JBool False), (''error'', JStr ''MRZ not found or invalid'')])
      \<and> calls (snd (validate_passport P (Some img) w)) =
          calls w @ [Laplacian_var, Imwrite ''temp_passport.jpg'',
                     Read_mrz ''temp_passport.jpg''])
   \<and> (fst (check_image_quality P img w) = Inr (True, qmsg)
        \<and> fst (validate_mrz P img w') = Inr (True, d)
        \<and> fst (check_passport_layout P img w'') = Inr (False, lmsg) \<longrightarrow>
      fst (validate_passport P (Some img) w) =
        JSONResponse 400 (JObj [(''valid'', JBool False), (''error'', JStr lmsg)])
      \<and> calls (snd (validate_passport P (Some img) w)) =
          calls w @ [Laplacian_var, Imwrite ''temp_passport.jpg'',
                     Read_mrz ''temp_passport.jpg'', DetectMultiScale])
   \<and> (fst (check_image_quality P img w) = Inr (True, qmsg)
        \<and> fst (validate_mrz P img w') = Inr (True, d)
        \<and> fst (check_passport_layout P img w'') = Inr (True, lmsg) \<longrightarrow>
      (\<exists>j. fst (validate_passport P (Some img) w) = Returned j)
      \<and> calls (snd (validate_passport P (Some img) w)) =
          calls w @ [Laplacian_var, Imwrite ''temp_passport.jpg'',
                     Read_mrz ''temp_passport.jpg'', DetectMultiScale])
   \<and> (fst (check_image_quality P img w) = Inl e \<longrightarrow>
      fst (validate_passport P (Some img) w) = processing_error P e
      \<and> files (snd (validate_passport P (Some img) w)) = files w
      \<and> calls (snd (validate_passport P (Some img) w)) = calls w @ [Laplacian_var])
   \<and> (fst (check_image_quality P img w) = Inr (True, qmsg)
        \<and> fst (validate_mrz P img w') = Inl e \<longrightarrow>
      fst (validate_passport P (Some img) w) = processing_error P e
      \<and> calls (snd (validate_passport P (Some img) w)) =
          calls w @ [Laplacian_var, Imwrite ''temp_passport.jpg'',
                     Read_mrz ''temp_passport.jpg''])
   \<and> (fst (check_image_quality P img w) = Inr (True, qmsg)
        \<and> fst (validate_mrz P img w') = Inr (True, d)
        \<and> fst (check_passport_layout P img w'') = Inl e \<longrightarrow>
      fst (validate_passport P (Some img) w) = processing_error P e
      \<and> calls (snd (validate_passport P (Some img) w)) =
          calls w @ [Laplacian_var, Imwrite ''temp_passport.jpg'',
                     Read_mrz ''temp_passport.jpg'', DetectMultiScale])
   \<and> calls (snd (validate_passport P (Some img) w)) \<in>
       {calls w,
        calls w @ [Laplacian_var],
        calls w @ [Laplacian_var, Imwrite ''temp_passport.jpg'',
                   Read_mrz ''temp_passport.jpg''],
        calls w @ [Laplacian_var, Imwrite ''temp_passport.jpg'',
                   Read_mrz ''temp_passport.jpg'', DetectMultiScale]}"
proof -
  let ?w1 = "snd (check_image_quality P img w)"
  let ?w2 = "snd (validate_mrz P img ?w1)"
  have mrz: "fst (validate_mrz P img ?w1) = r" if "fst (validate_mrz P img w') = r" for r
    using that validate_mrz_fst [of P img w' ?w1] by simp
  have lay: "fst (check_passport_layout P img ?w2) = r"
    if "fst (check_passport_layout P img w'') = r" for r
    using that check_passport_layout_fst [of P img w'' ?w2] by simp
  show ?thesis
  proof (intro conjI impI)
    assume q: "fst (check_image_quality P img w) = Inr (False, qmsg)"
    note r = handler_quality_refused [OF q]
    show "fst (validate_passport P (Some img) w) =
            JSONResponse 400 (JObj [(''valid'', JBool False), (''error'', JStr qmsg)])"
      by (simp add: r)
    show "files (snd (validate_passport P (Some img) w)) = files w"
      by (simp add: r check_image_quality_world record_call_def)
    show "calls (snd (validate_passport P (Some img) w)) =
            calls w @ (if width img < 800 \<or> height img < 600 then [] else [Laplacian_var])"
      by (simp add: r check_image_quality_world record_call_def)
  next
    assume a: "fst (check_image_quality P img w) = Inr (True, qmsg)
                 \<and> fst (validate_mrz P img w') = Inr (False, d)"
    then have q: "fst (check_image_quality P img w) = Inr (True, qmsg)" by simp
    from a have z: "fst (validate_mrz P img ?w1) = Inr (False, d)" by (simp add: mrz)
    note r = handler_mrz_refused [OF q z]
    show "fst (validate_passport P (Some img) w) =
            JSONResponse 400
              (JObj [(''valid'', JBool False), (''error'', JStr ''MRZ not found or invalid'')])"
      by (simp add: r)
    show "calls (snd (validate_passport P (Some img) w)) =
            calls w @ [Laplacian_var, Imwrite ''temp_passport.jpg'',
                       Read_mrz ''temp_passport.jpg'']"
      by (simp add: r world_after_mrz [OF q])
  next
    assume a: "fst (check_image_quality P img w) = Inr (True, qmsg)
                 \<and> fst (validate_mrz P img w') = Inr (True, d)
                 \<and> fst (check_passport_layout P img w'') = Inr (False, lmsg)"
    then have q: "fst (check_image_quality P img w) = Inr (True, qmsg)" by simp
    from a have z: "fst (validate_mrz P img ?w1) = Inr (True, d)" by (simp add: mrz)
    from a have l: "fst (check_passport_layout P img ?w2) = Inr (False, lmsg)"
      by (simp add: lay)
    note r = handler_layout_refused [OF q z l]
    show "fst (validate_passport P (Some img) w) =
            JSONResponse 400 (JObj [(''valid'', JBool False), (''error'', JStr lmsg)])"
      by (simp add: r)
    show "calls (snd (validate_passport P (Some img) w)) =
            calls w @ [Laplacian_var, Imwrite ''temp_passport.jpg'',
                       Read_mrz ''temp_passport.jpg'', DetectMultiScale]"
      by (simp add: r world_after_layout [OF q])
  next
    assume a: "fst (check_image_quality P img w) = Inr (True, qmsg)
                 \<and> fst (validate_mrz P img w') = Inr (True, d)
                 \<and> fst (check_passport_layout P img w'') = Inr (True, lmsg)"
    then have q: "fst (check_image_quality P img w) = Inr (True, qmsg)" by simp
    from a obtain d' where d': "d = Some d'"
      using validate_mrz_passed_Some [of P img w' d] by auto
    from a d' have z: "fst (validate_mrz P img ?w1) = Inr (True, Some d')"
      by (simp add: mrz)
    from a have l: "fst (check_passport_layout P img ?w2) = Inr (True, lmsg)"
      by (simp add: lay)
    note r = handler_accepts [OF q z l]
    show "\<exists>j. fst (validate_passport P (Some img) w) = Returned j"
      by (simp add: r)
    show "calls (snd (validate_passport P (Some img) w)) =
            calls w @ [Laplacian_var, Imwrite ''temp_passport.jpg'',
                       Read_mrz ''temp_passport.jpg'', DetectMultiScale]"
      by (simp add: r world_after_layout [OF q])
  next
    assume q: "fst (check_image_quality P img w) = Inl e"
    note r = handler_quality_raised [OF q]
    note large = quality_raised_large [OF q]
    show "fst (validate_passport P (Some img) w) = processing_error P e"
      by (simp add: r)
    show "files (snd (validate_passport P (Some img) w)) = files w"
      by (simp add: r check_image_quality_world record_call_def)
    show "calls (snd (validate_passport P (Some img) w)) = calls w @ [Laplacian_var]"
      using large by (simp add: r check_image_quality_world record_call_def)
  next
    assume a: "fst (check_image_quality P img w) = Inr (True, qmsg)
                 \<and> fst (validate_mrz P img w') = Inl e"
    then have q: "fst (check_image_quality P img w) = Inr (True, qmsg)" by simp
    from a have z: "fst (validate_mrz P img ?w1) = Inl e" by (simp add: mrz)
    note r = handler_mrz_raised [OF q z]
    show "fst (validate_passport P (Some img) w) = processing_error P e"
      by (simp add: r)
    show "calls (snd (validate_passport P (Some img) w)) =
            calls w @ [Laplacian_var, Imwrite ''temp_passport.jpg'',
                       Read_mrz ''temp_passport.jpg'']"
      by (simp add: r world_after_mrz [OF q])
  next
    assume a: "fst (check_image_quality P img w) = Inr (True, qmsg)
                 \<and> fst (validate_mrz P img w') = Inr (True, d)
                 \<and> fst (check_passport_layout P img w'') = Inl e"
    then have q: "fst (check_image_quality P img w) = Inr (True, qmsg)" by simp
    from a have z: "fst (validate_mrz P img ?w1) = Inr (True, d)" by (simp add: mrz)
    from a have l: "fst (check_passport_layout P img ?w2) = Inl e" by (simp add: lay)
    note r = handler_layout_raised [OF q z l]
    show "fst (validate_passport P (Some img) w) = processing_error P e"
      by (simp add: r)
    show "calls (snd (validate_passport P (Some img) w)) =
            calls w @ [Laplacian_var, Imwrite ''temp_passport.jpg'',
                       Read_mrz ''temp_passport.jpg'', DetectMultiScale]"
      by (simp add: r world_after_layout [OF q])
  next
    show "calls (snd (validate_passport P (Some img) w)) \<in>
            {calls w,
             calls w @ [Laplacian_var],
             calls w @ [Laplacian_var, Imwrite ''temp_passport.jpg'',
                        Read_mrz ''temp_passport.jpg''],
             calls w @ [Laplacian_var, Imwrite ''temp_passport.jpg'',
                        Read_mrz ''temp_passport.jpg'', DetectMultiScale]}"
      by (rule validate_passport_calls)
  qed
qed

theorem validate_passport_short_circuit_witness:
  "(fst (validate_passport (stub_providers 900 (Some (specimen 100)) [(120, 200, 300, 300)])
           (Some (blank 300 400)) fresh) =
      JSONResponse 400
        (JObj [(''valid'', JBool False),
               (''error'', JStr ''Image resolution too low (min 1200x900 pixels required)'')])
    \<and> files (snd (validate_passport
                    (stub_providers 900 (Some (specimen 100)) [(120, 200, 300, 300)])
                    (Some (blank 300 400)) fresh)) = Map.empty
    \<and> calls (snd (validate_passport
                    (stub_providers 900 (Some (specimen 100)) [(120, 200, 300, 300)])
                    (Some (blank 300 400)) fresh)) = [])
   \<and> (fst (validate_passport (stub_providers 900 None [(120, 200, 300, 300)])
           (Some (blank 900 1200)) fresh) =
        JSONResponse 400
          (JObj [(''valid'', JBool False), (''error'', JStr ''MRZ not found or invalid'')])
      \<and> calls (snd (validate_passport (stub_providers 900 None [(120, 200, 300, 300)])
           (Some (blank 900 1200)) fresh)) =
          [Laplacian_var, Imwrite ''temp_passport.jpg'', Read_mrz ''temp_passport.jpg''])
   \<and> (fst (validate_passport (stub_providers 900 (Some (specimen 100)) [])
           (Some (blank 900 1200)) fresh) =
        JSONResponse 400
          (JObj [(''valid'', JBool False),
                 (''error'', JStr ''No face detected in passport photo'')])
      \<and> calls (snd (validate_passport (stub_providers 900 (Some (specimen 100)) [])
           (Some (blank 900 1200)) fresh)) =
          [Laplacian_var, Imwrite ''temp_passport.jpg'', Read_mrz ''temp_passport.jpg'',
           DetectMultiScale])
   \<and> ((\<exists>j. fst (validate_passport
                  (stub_providers 900 (Some (specimen 100)) [(120, 200, 300, 300)])
                  (Some (blank 900 1200)) fresh) = Returned j)
      \<and> calls (snd (validate_passport
                      (stub_providers 900 (Some (specimen 100)) [(120, 200, 300, 300)])
                      (Some (blank 900 1200)) fresh)) =
          [Laplacian_var, Imwrite ''temp_passport.jpg'', Read_mrz ''temp_passport.jpg'',
           DetectMultiScale])
   \<and> (fst (validate_passport
              (failing_laplacian (stub_providers 900 (Some (specimen 100)) []))
              (Some (blank 900 1200)) fresh) =
        Raised 500 ''Processing error: OpenCV error''
      \<and> files (snd (validate_passport
                      (failing_laplacian (stub_providers 900 (Some (specimen 100)) []))
                      (Some (blank 900 1200)) fresh)) = Map.empty
      \<and> calls (snd (validate_passport
                      (failing_laplacian (stub_providers 900 (Some (specimen 100)) []))
                      (Some (blank 900 1200)) fresh)) = [Laplacian_var])
   \<and> (fst (validate_passport (stub_providers 900 (Some (visa 100)) [(120, 200, 300, 300)])
              (Some (blank 900 1200)) fresh) =
        Raised 500
          (''Processing error: '' @ quoted ''MRZ'' @ '' object has no attribute ''
             @ quoted ''valid_composite'')
      \<and> calls (snd (validate_passport
                      (stub_providers 900 (Some (visa 100)) [(120, 200, 300, 300)])
                      (Some (blank 900 1200)) fresh)) =
          [Laplacian_var, Imwrite ''temp_passport.jpg'', Read_mrz ''temp_passport.jpg''])
   \<and> (fst (validate_passport
              (failing_detector (stub_providers 900 (Some (specimen 100)) []))
              (Some (blank 900 1200)) fresh) =
        Raised 500 ''Processing error: OpenCV error''
      \<and> calls (snd (validate_passport
                      (failing_detector (stub_providers 900 (Some (specimen 100)) []))
                      (Some (blank 900 1200)) fresh)) =
          [Laplacian_var, Imwrite ''temp_passport.jpg'', Read_mrz ''temp_passport.jpg'',
           DetectMultiScale])"
proof -
  let ?A = "stub_providers 900 (Some (specimen 100)) [(120, 200, 300, 300)]"
  let ?B = "stub_providers 900 None [(120, 200, 300, 300)]"
  let ?C = "stub_providers 900 (Some (specimen 100)) []"
  let ?E = "failing_laplacian ?C"
  let ?F = "stub_providers 900 (Some (visa 100)) [(120, 200, 300, 300)]"
  let ?G = "failing_detector ?C"
  let ?small = "blank 300 400" and ?large = "blank 900 1200"
  let ?res = "''Image resolution too low (min 1200x900 pixels required)''"
  let ?ok = "''Image quality OK''"
  let ?err = "LibraryError ''OpenCV error''"
  let ?found = "Some
         \<lparr> m_country = ''UTO'',
           m_passport_number = ''L898902C3'',
           m_birth_date = ''740812'',
           m_expiry_date = ''120415'',
           m_name = ''ANNA MARIA'',
           m_surname = ''ERIKSSON'',
           m_gender = ''F'',
           m_nationality = ''UTO'',
           m_validation_details =
             \<lparr> d_valid_score = 100,
               d_number_valid = True,
               d_dob_valid = True,
               d_expiry_valid = True,
               d_composite_valid = True \<rparr> \<rparr>"
  note ev = check_image_quality_reads validate_mrz_reads check_passport_layout_reads
    attr_def stub_sel specimen_def visa_def failing_laplacian_def failing_detector_def
    width_blank height_blank
  have c1: "(fst (validate_passport ?A (Some ?small) fresh) =
               JSONResponse 400 (JObj [(''valid'', JBool False), (''error'', JStr ?res)])
             \<and> files (snd (validate_passport ?A (Some ?small) fresh)) = Map.empty
             \<and> calls (snd (validate_passport ?A (Some ?small) fresh)) = [])"
  proof -
    have q: "fst (check_image_quality ?A ?small fresh) = Inr (False, ?res)"
      by (simp add: ev)
    from validate_passport_short_circuit
           [where P = ?A and img = ?small and w = fresh and qmsg = ?res,
            THEN conjunct1, rule_format, OF q]
    show ?thesis by (simp add: width_blank fresh_def)
  qed
  have c2: "(fst (validate_passport ?B (Some ?large) fresh) =
               JSONResponse 400
                 (JObj [(''valid'', JBool False),
                        (''error'', JStr ''MRZ not found or invalid'')])
             \<and> calls (snd (validate_passport ?B (Some ?large) fresh)) =
                 [Laplacian_var, Imwrite ''temp_passport.jpg'',
                  Read_mrz ''temp_passport.jpg''])"
  proof -
    have q: "fst (check_image_quality ?B ?large fresh) = Inr (True, ?ok)
             \<and> fst (validate_mrz ?B ?large fresh) = Inr (False, None)"
      by (simp add: ev)
    from validate_passport_short_circuit
           [where P = ?B and img = ?large and w = fresh and w' = fresh and qmsg = ?ok
              and d = None,
            THEN conjunct2, THEN conjunct1, rule_format, OF q]
    show ?thesis by (simp add: fresh_def)
  qed
  have c3: "(fst (validate_passport ?C (Some ?large) fresh) =
               JSONResponse 400
                 (JObj [(''valid'', JBool False),
                        (''error'', JStr ''No face detected in passport photo'')])
             \<and> calls (snd (validate_passport ?C (Some ?large) fresh)) =
                 [Laplacian_var, Imwrite ''temp_passport.jpg'',
                  Read_mrz ''temp_passport.jpg'', DetectMultiScale])"
  proof -
    have q: "fst (check_image_quality ?C ?large fresh) = Inr (True, ?ok)
             \<and> fst (validate_mrz ?C ?large fresh) = Inr (True, ?found)
             \<and> fst (check_passport_layout ?C ?large fresh) =
                 Inr (False, ''No face detected in passport photo'')"
      by (simp add: ev)
    from validate_passport_short_circuit
           [where P = ?C and img = ?large and w = fresh and w' = fresh and w'' = fresh
              and qmsg = ?ok and d = ?found
              and lmsg = "''No face detected in passport photo''",
            THEN conjunct2, THEN conjunct2, THEN conjunct1, rule_format, OF q]
    show ?thesis by (simp add: fresh_def)
  qed
  have c4: "((\<exists>j. fst (validate_passport ?A (Some ?large) fresh) = Returned j)
             \<and> calls (snd (validate_passport ?A (Some ?large) fresh)) =
                 [Laplacian_var, Imwrite ''temp_passport.jpg'',
                  Read_mrz ''temp_passport.jpg'', DetectMultiScale])"
  proof -
    have q: "fst (check_image_quality ?A ?large fresh) = Inr (True, ?ok)
             \<and> fst (validate_mrz ?A ?large fresh) = Inr (True, ?found)
             \<and> fst (check_passport_layout ?A ?large fresh) = Inr (True, ''Basic layout OK'')"
      by (simp add: ev)
    from validate_passport_short_circuit
           [where P = ?A and img = ?large and w = fresh and w' = fresh and w'' = fresh
              and qmsg = ?ok and d = ?found and lmsg = "''Basic layout OK''",
            THEN conjunct2, THEN conjunct2, THEN conjunct2, THEN conjunct1,
            rule_format, OF q]
    show ?thesis by (simp add: fresh_def)
  qed
  have c5: "(fst (validate_passport ?E (Some ?large) fresh) =
               Raised 500 ''Processing error: OpenCV error''
             \<and> files (snd (validate_passport ?E (Some ?large) fresh)) = Map.empty
             \<and> calls (snd (validate_passport ?E (Some ?large) fresh)) = [Laplacian_var])"
  proof -
    have q: "fst (check_image_quality ?E ?large fresh) = Inl ?err"
      by (simp add: ev)
    from validate_passport_short_circuit
           [where P = ?E and img = ?large and w = fresh and e = ?err,
            THEN conjunct2, THEN conjunct2, THEN conjunct2, THEN conjunct2,
            THEN conjunct1, rule_format, OF q]
    show ?thesis
      by (simp add: fresh_def processing_error_def failing_laplacian_def stub_sel)
  qed
  have c6: "(fst (validate_passport ?F (Some ?large) fresh) =
               Raised 500
                 (''Processing error: '' @ quoted ''MRZ'' @ '' object has no attribute ''
                    @ quoted ''valid_composite'')
             \<and> calls (snd (validate_passport ?F (Some ?large) fresh)) =
                 [Laplacian_var, Imwrite ''temp_passport.jpg'',
                  Read_mrz ''temp_passport.jpg''])"
  proof -
    have q: "fst (check_image_quality ?F ?large fresh) = Inr (True, ?ok)
             \<and> fst (validate_mrz ?F ?large fresh) = Inl (AttributeError ''valid_composite'')"
      by (simp add: ev)
    from validate_passport_short_circuit
           [where P = ?F and img = ?large and w = fresh and w' = fresh and qmsg = ?ok
              and e = "AttributeError ''valid_composite''",
            THEN conjunct2, THEN conjunct2, THEN conjunct2, THEN conjunct2,
            THEN conjunct2, THEN conjunct1, rule_format, OF q]
    show ?thesis
      by (simp add: fresh_def processing_error_def stub_sel)
  qed
  have c7: "(fst (validate_passport ?G (Some ?large) fresh) =
               Raised 500 ''Processing error: OpenCV error''
             \<and> calls (snd (validate_passport ?G (Some ?large) fresh)) =
                 [Laplacian_var, Imwrite ''temp_passport.jpg'',
                  Read_mrz ''temp_passport.jpg'', DetectMultiScale])"
  proof -
    have q: "fst (check_image_quality ?G ?large fresh) = Inr (True, ?ok)
             \<and> fst (validate_mrz ?G ?large fresh) = Inr (True, ?found)
             \<and> fst (check_passport_layout ?G ?large fresh) = Inl ?err"
      by (simp add: ev)
    from validate_passport_short_circuit
           [where P = ?G and img = ?large and w = fresh and w' = fresh and w'' = fresh
              and qmsg = ?ok and d = ?found and e = ?err,
            THEN conjunct2, THEN conjunct2, THEN conjunct2, THEN conjunct2,
            THEN conjunct2, THEN conjunct2, THEN conjunct1, rule_format, OF q]
    show ?thesis
      by (simp add: fresh_def processing_error_def failing_detector_def stub_sel)
  qed
  from c1 c2 c3 c4 c5 c6 c7 show ?thesis
    by (intro conjI) blast+
qed

text \<open>
  C3, on the code: the claim has the check pass for every score above 50, and the
  comment at the return says the data is returned as long as the score is good. The
  code guards \<^verbatim>\<open>valid_score\<close> with \<^verbatim>\<open>hasattr\<close> and reads the other attributes
  unguarded. On a visa MRZ read with score 100, which has no \<^verbatim>\<open>valid_composite\<close>, the
  check neither passes nor refuses: it raises \<^verbatim>\<open>AttributeError\<close>, and the handler
  answers with status 500.
\<close>

theorem visa_mrz_raises:
  "valid_score (visa 100) = Some 100
   \<and> fst (validate_mrz (stub_providers 900 (Some (visa 100)) [(120, 200, 300, 300)])
            (blank 900 1200) fresh) =
       Inl (AttributeError ''valid_composite'')
   \<and> fst (validate_passport (stub_providers 900 (Some (visa 100)) [(120, 200, 300, 300)])
            (Some (blank 900 1200)) fresh) =
       Raised 500
         (''Processing error: '' @ quoted ''MRZ'' @ '' object has no attribute ''
            @ quoted ''valid_composite'')"
proof -
  let ?P = "stub_providers 900 (Some (visa 100)) [(120, 200, 300, 300)]"
  let ?img = "blank 900 1200"
  have z: "fst (validate_mrz ?P ?img u) = Inl (AttributeError ''valid_composite'')" for u
    by (simp add: validate_mrz_reads attr_def stub_sel visa_def specimen_def)
  have q: "fst (check_image_quality ?P ?img fresh) = Inr (True, ''Image quality OK'')"
    by (simp add: check_image_quality_def width_blank height_blank stub_sel)
  from handler_mrz_raised [OF q z] z show ?thesis
    by (simp add: processing_error_def stub_sel visa_def specimen_def)
qed

text \<open>
  C6, as the spec has it: a score of 50 or less gives a failure of another kind than
  a missing MRZ, one that carries the validity flags. The code does not: on the specimen
  read with score 50 and on a picture where PassportEye finds nothing, the handler gives
  the same response and leaves the same world, and the response holds two entries,
  \<open>valid\<close> and \<open>error\<close>.
\<close>

theorem low_confidence_not_distinguished:
  "validate_passport (stub_providers 900 (Some (specimen 50)) [(120, 200, 300, 300)])
     (Some (blank 900 1200)) fresh =
   validate_passport (stub_providers 900 None [(120, 200, 300, 300)])
     (Some (blank 900 1200)) fresh
   \<and> fst (validate_passport (stub_providers 900 (Some (specimen 50)) [(120, 200, 300, 300)])
            (Some (blank 900 1200)) fresh) =
       JSONResponse 400
         (JObj [(''valid'', JBool False), (''error'', JStr ''MRZ not found or invalid'')])"
proof -
  let ?L = "stub_providers 900 (Some (specimen 50)) [(120, 200, 300, 300)]"
  let ?N = "stub_providers 900 None [(120, 200, 300, 300)]"
  let ?img = "blank 900 1200"
  have ql: "fst (check_image_quality ?L ?img fresh) = Inr (True, ''Image quality OK'')"
    by (simp add: check_image_quality_def width_blank height_blank stub_sel)
  have qn: "fst (check_image_quality ?N ?img fresh) = Inr (True, ''Image quality OK'')"
    by (simp add: check_image_quality_def width_blank height_blank stub_sel)
  have zl: "fst (validate_mrz ?L ?img (snd (check_image_quality ?L ?img fresh))) =
              Inr (False, None)"
    by (simp add: validate_mrz_reads attr_def stub_sel specimen_def)
  have zn: "fst (validate_mrz ?N ?img (snd (check_image_quality ?N ?img fresh))) =
              Inr (False, None)"
    by (simp add: validate_mrz_reads stub_sel)
  show ?thesis
    by (simp add: handler_mrz_refused [OF ql zl] handler_mrz_refused [OF qn zn]
                  world_after_mrz [OF ql] world_after_mrz [OF qn] stub_sel)
qed

text \<open>
  C6, amended. Once the quality check has passed, the three ways the MRZ check refuses
  (PassportEye finds nothing, its result has no score, the score is 50 or less) end
  alike: \<^verbatim>\<open>validate_mrz\<close> returns \<open>(False, None)\<close>, and the handler answers status 400
  with \<open>valid\<close> false and the one text "MRZ not found or invalid", with no validity flags.
\<close>

theorem mrz_refusals_alike:
  "fst (check_image_quality P img w) = Inr (True, qmsg)
   \<and> (read_mrz P (Some (imencode P img)) = Inr None
      \<or> read_mrz P (Some (imencode P img)) = Inr (Some m)
        \<and> (valid_score m = None \<or> (\<exists>score. valid_score m = Some score \<and> score \<le> 50)))
   \<longrightarrow> fst (validate_mrz P img w') = Inr (False, None)
       \<and> fst (validate_passport P (Some img) w) =
           JSONResponse 400
             (JObj [(''valid'', JBool False), (''error'', JStr ''MRZ not found or invalid'')])"
proof (intro impI)
  assume a: "fst (check_image_quality P img w) = Inr (True, qmsg)
     \<and> (read_mrz P (Some (imencode P img)) = Inr None
        \<or> read_mrz P (Some (imencode P img)) = Inr (Some m)
          \<and> (valid_score m = None \<or> (\<exists>score. valid_score m = Some score \<and> score \<le> 50)))"
  then have q: "fst (check_image_quality P img w) = Inr (True, qmsg)" by simp
  from a have z: "fst (validate_mrz P img u) = Inr (False, None)" for u
    by (auto simp: validate_mrz_reads)
  from handler_mrz_refused [OF q z] z
  show "fst (validate_mrz P img w') = Inr (False, None)
        \<and> fst (validate_passport P (Some img) w) =
            JSONResponse 400
              (JObj [(''valid'', JBool False), (''error'', JStr ''MRZ not found or invalid'')])"
    by simp
qed

theorem mrz_refusals_alike_witness:
  "fst (validate_passport (stub_providers 900 None []) (Some (blank 900 1200)) fresh) =
     JSONResponse 400
       (JObj [(''valid'', JBool False), (''error'', JStr ''MRZ not found or invalid'')])
   \<and> fst (validate_passport (stub_providers 900 (Some (specimen 50)) [])
            (Some (blank 900 1200)) fresh) =
       JSONResponse 400
         (JObj [(''valid'', JBool False), (''error'', JStr ''MRZ not found or invalid'')])
   \<and> fst (validate_passport
            (stub_providers 900 (Some ((specimen 100)\<lparr>valid_score := None\<rparr>)) [])
            (Some (blank 900 1200)) fresh) =
       JSONResponse 400
         (JObj [(''valid'', JBool False), (''error'', JStr ''MRZ not found or invalid'')])"
proof -
  let ?img = "blank 900 1200"
  have q: "fst (check_image_quality (stub_providers 900 found []) ?img fresh) =
             Inr (True, ''Image quality OK'')" for found
    by (simp add: check_image_quality_def width_blank height_blank stub_sel)
  have s: "valid_score (specimen 50) = Some 50 \<and> (50::int) \<le> 50"
    by (simp add: specimen_def)
  from mrz_refusals_alike
         [where P = "stub_providers 900 None []" and img = ?img and w = fresh
            and qmsg = "''Image quality OK''"]
       mrz_refusals_alike
         [where P = "stub_providers 900 (Some (specimen 50)) []" and img = ?img
            and w = fresh and qmsg = "''Image quality OK''" and m = "specimen 50"]
       mrz_refusals_alike
         [where P = "stub_providers 900 (Some ((specimen 100)\<lparr>valid_score := None\<rparr>)) []"
            and img = ?img and w = fresh and qmsg = "''Image quality OK''"
            and m = "(specimen 100)\<lparr>valid_score := None\<rparr>"]
       q s
  show ?thesis
    by (simp add: stub_sel)
qed

text \<open>
  C7. When the three checks pass, the MRZ check has returned a dictionary, and the
  handler returns \<open>valid\<close> true with that dictionary's country, passport number, birth
  date, expiry date, gender and nationality, the name made of the surname, one space
  and the given names, and under \<open>checks\<close> the messages of the quality and the layout
  check. Nothing else is in the result.
\<close>

theorem validate_passport_success:
  "fst (check_image_quality P img w) = Inr (True, qmsg)
   \<and> fst (validate_mrz P img w') = Inr (True, found)
   \<and> fst (check_passport_layout P img w'') = Inr (True, lmsg)
   \<longrightarrow> (\<exists>d. found = Some d
         \<and> fst (validate_passport P (Some img) w) =
             Returned (JObj
               [(''valid'', JBool True),
                (''country'', JStr (m_country d)),
                (''passport_number'', JStr (m_passport_number d)),
                (''birth_date'', JStr (m_birth_date d)),
                (''expiry_date'', JStr (m_expiry_date d)),
                (''name'', JStr (m_surname d @ '' '' @ m_name d)),
                (''gender'', JStr (m_gender d)),
                (''nationality'', JStr (m_nationality d)),
                (''checks'', JObj
                   [(''image_quality'', JStr qmsg),
                    (''layout_validation'', JStr lmsg)])]))"
proof (intro impI)
  assume a: "fst (check_image_quality P img w) = Inr (True, qmsg)
     \<and> fst (validate_mrz P img w') = Inr (True, found)
     \<and> fst (check_passport_layout P img w'') = Inr (True, lmsg)"
  then have q: "fst (check_image_quality P img w) = Inr (True, qmsg)" by simp
  from a have "fst (validate_mrz P img w') = Inr (True, found)" by simp
  then obtain d where d: "found = Some d"
    by (auto simp: validate_mrz_reads split: sum.splits option.splits if_splits)
  from a d have z: "fst (validate_mrz P img (snd (check_image_quality P img w))) =
                      Inr (True, Some d)"
    using validate_mrz_fst [of P img w'] by simp
  from a have l: "fst (check_passport_layout P img
                         (snd (validate_mrz P img (snd (check_image_quality P img w))))) =
                    Inr (True, lmsg)"
    using check_passport_layout_fst [of P img w''] by simp
  from handler_accepts [OF q z l] d
  show "\<exists>d. found = Some d
         \<and> fst (validate_passport P (Some img) w) =
             Returned (JObj
               [(''valid'', JBool True),
                (''country'', JStr (m_country d)),
                (''passport_number'', JStr (m_passport_number d)),
                (''birth_date'', JStr (m_birth_date d)),
                (''expiry_date'', JStr (m_expiry_date d)),
                (''name'', JStr (m_surname d @ '' '' @ m_name d)),
                (''gender'', JStr (m_gender d)),
                (''nationality'', JStr (m_nationality d)),
                (''checks'', JObj
                   [(''image_quality'', JStr qmsg),
                    (''layout_validation'', JStr lmsg)])])"
    by simp
qed

theorem validate_passport_success_witness:
  "fst (validate_passport (stub_providers 900 (Some (specimen 100)) [(120, 200, 300, 300)])
          (Some (blank 900 1200)) fresh) =
     Returned (JObj
       [(''valid'', JBool True),
        (''country'', JStr ''UTO''),
        (''passport_number'', JStr ''L898902C3''),
        (''birth_date'', JStr ''740812''),
        (''expiry_date'', JStr ''120415''),
        (''name'', JStr ''ERIKSSON ANNA MARIA''),
        (''gender'', JStr ''F''),
        (''nationality'', JStr ''UTO''),
        (''checks'', JObj
           [(''image_quality'', JStr ''Image quality OK''),
            (''layout_validation'', JStr ''Basic layout OK'')])])"
proof -
  let ?P = "stub_providers 900 (Some (specimen 100)) [(120, 200, 300, 300)]"
  let ?img = "blank 900 1200"
  let ?found = "Some
         \<lparr> m_country = ''UTO'',
           m_passport_number = ''L898902C3'',
           m_birth_date = ''740812'',
           m_expiry_date = ''120415'',
           m_name = ''ANNA MARIA'',
           m_surname = ''ERIKSSON'',
           m_gender = ''F'',
           m_nationality = ''UTO'',
           m_validation_details =
             \<lparr> d_valid_score = 100,
               d_number_valid = True,
               d_dob_valid = True,
               d_expiry_valid = True,
               d_composite_valid = True \<rparr> \<rparr>"
  have q: "fst (check_image_quality ?P ?img fresh) = Inr (True, ''Image quality OK'')"
    by (simp add: check_image_quality_def width_blank height_blank stub_sel)
  have z: "fst (validate_mrz ?P ?img fresh) = Inr (True, ?found)"
    by (simp add: validate_mrz_reads attr_def stub_sel specimen_def)
  have l: "fst (check_passport_layout ?P ?img fresh) = Inr (True, ''Basic layout OK'')"
    by (simp add: check_passport_layout_def width_blank stub_sel)
  from validate_passport_success
         [where P = ?P and img = ?img and w = fresh and w' = fresh and w'' = fresh,
          rule_format, OF conjI [OF q conjI [OF z l]]]
  show ?thesis
    by auto
qed

lemma validate_passport_fst:
  "fst (validate_passport P decoded w) = fst (validate_passport P decoded w')"
proof (cases decoded)
  case None
  then show ?thesis by (simp add: validate_passport_def)
next
  case (Some img)
  have "fst (validate_passport P (Some img) u) = fst (validate_passport P (Some img) fresh)"
    for u
    by (simp add: validate_passport_def split_beta check_image_quality_reads
                  validate_mrz_reads check_passport_layout_reads
             split: sum.split option.split list.split)
  from this [of w] this [of w'] Some show ?thesis by simp
qed

text \<open>
  C8. The response of the handler does not depend on the world it starts in: the only
  thing the checks read from the world is the file the MRZ check has just written. So
  a second call on the same input, run in the world the first call left, with the same
  libraries, gives the same response. The quality check by itself gives the same verdict in every
  world.
\<close>

theorem validate_passport_repeatable:
  "fst (validate_passport P decoded (snd (validate_passport P decoded w))) =
     fst (validate_passport P decoded w)
   \<and> fst (validate_passport P decoded w') = fst (validate_passport P decoded w)
   \<and> fst (check_image_quality P img w') = fst (check_image_quality P img w)"
  using validate_passport_fst [of P decoded "snd (validate_passport P decoded w)" w]
        validate_passport_fst [of P decoded w' w]
        check_image_quality_fst [of P img w' w]
  by simp

text \<open>
  C9, on the code: the MRZ check writes the picture to \<^verbatim>\<open>temp_passport.jpg\<close> and no
  statement removes it, although the comment at the write says the picture is saved
  temporarily. Starting without any file, the run on the specimen ends with that file
  in place, holding the picture.
\<close>

theorem temp_file_left_behind:
  "files fresh ''temp_passport.jpg'' = None
   \<and> files (snd (validate_passport
                  (stub_providers 900 (Some (specimen 100)) [(120, 200, 300, 300)])
                  (Some (blank 900 1200)) fresh)) ''temp_passport.jpg'' =
       Some (samples (blank 900 1200))"
proof -
  let ?P = "stub_providers 900 (Some (specimen 100)) [(120, 200, 300, 300)]"
  let ?img = "blank 900 1200"
  have q: "fst (check_image_quality ?P ?img fresh) = Inr (True, ''Image quality OK'')"
    by (simp add: check_image_quality_reads width_blank height_blank stub_sel)
  obtain d where z: "fst (validate_mrz ?P ?img (snd (check_image_quality ?P ?img fresh))) =
                       Inr (True, Some d)"
    by (simp add: validate_mrz_reads attr_def stub_sel specimen_def)
  have l: "fst (check_passport_layout ?P ?img
                  (snd (validate_mrz ?P ?img (snd (check_image_quality ?P ?img fresh))))) =
             Inr (True, ''Basic layout OK'')"
    by (simp add: check_passport_layout_reads width_blank stub_sel)
  show ?thesis
    by (simp add: handler_accepts [OF q z l] world_after_layout [OF q] stub_sel)
       (simp add: fresh_def)
qed

section \<open>Properties of the check digit\<close>

lemma weight_cases: "weight i = 7 \<or> weight i = 3 \<or> weight i = 1"
  by (simp add: weight_def)

text \<open>The character-by-character sum is the sum the spec writes.\<close>

lemma weighted_sum_Some:
  "mrz_chars field \<Longrightarrow>
     weighted_sum i field =
       Some (\<Sum>k < length field. the (char_value (field ! k)) * weight (i + k))"
proof (induction field arbitrary: i)
  case Nil
  then show ?case by simp
next
  case (Cons c cs)
  from Cons.prems obtain v where v: "char_value c = Some v" and cs: "mrz_chars cs"
    by (auto simp: mrz_chars_def)
  show ?case
    by (simp add: v Cons.IH [OF cs] sum.lessThan_Suc_shift del: sum.lessThan_Suc)
qed

lemma check_digit_spec:
  "mrz_chars field \<Longrightarrow> check_digit field = Some (spec_check_digit field)"
  by (simp add: check_digit_def spec_check_digit_def weighted_sum_Some)

lemma digit_char_inj:
  "d < 10 \<Longrightarrow> e < 10 \<Longrightarrow> digit_char d = digit_char e \<longleftrightarrow> d = e"
  unfolding digit_char_def by (simp add: nth_eq_iff_index_eq)

lemma mrz_chars_update:
  "mrz_chars field \<Longrightarrow> char_value c = Some v \<Longrightarrow> mrz_chars (field[k := c])"
  unfolding mrz_chars_def list_all_iff
  using set_update_subset_insert [of field k c] by auto

text \<open>Replacing one character changes one term of the sum.\<close>

lemma spec_sum_update:
  assumes "k < length field" and "char_value c = Some v"
  shows "(\<Sum>j < length field. the (char_value (field[k := c] ! j)) * weight j)
           + the (char_value (field ! k)) * weight k =
         (\<Sum>j < length field. the (char_value (field ! j)) * weight j) + v * weight k"
proof -
  let ?g = "\<lambda>j. the (char_value (field ! j)) * weight j"
  let ?h = "\<lambda>j. the (char_value (field[k := c] ! j)) * weight j"
  let ?A = "{..<length field}"
  have g: "sum ?g ?A = ?g k + sum ?g (?A - {k})"
    by (rule sum.remove) (use assms(1) in simp_all)
  have h: "sum ?h ?A = ?h k + sum ?h (?A - {k})"
    by (rule sum.remove) (use assms(1) in simp_all)
  have "sum ?h (?A - {k}) = sum ?g (?A - {k})"
    by (rule sum.cong) auto
  moreover from assms have "?h k = v * weight k" by simp
  ultimately show ?thesis using g h by simp
qed

text \<open>Each weight is invertible modulo 10, so a weighted change shows in the last digit.\<close>

lemma dvd10_7: "(10::int) dvd x * 7 \<longleftrightarrow> 10 dvd x"
  by presburger

lemma dvd10_3: "(10::int) dvd x * 3 \<longleftrightarrow> 10 dvd x"
  by presburger

lemma dvd10_weight: "(10::int) dvd x * int (weight n) \<longleftrightarrow> 10 dvd x"
  using weight_cases [of n] dvd10_7 [of x] dvd10_3 [of x] by auto

lemma mod10_times_weight:
  fixes a b p q :: nat
  assumes "p + a * weight n = q + b * weight n"
  shows "p mod 10 = q mod 10 \<longleftrightarrow> b mod 10 = a mod 10"
proof -
  from assms have "int (p + a * weight n) = int (q + b * weight n)" by simp
  then have e: "int p - int q = (int b - int a) * int (weight n)"
    by (simp add: algebra_simps)
  have m: "x mod 10 = y mod 10 \<longleftrightarrow> (10::int) dvd int x - int y" for x y :: nat
  proof -
    have "x mod 10 = y mod 10 \<longleftrightarrow> int (x mod 10) = int (y mod 10)" by simp
    also have "\<dots> \<longleftrightarrow> int x mod 10 = int y mod 10" by (simp only: zmod_int of_nat_numeral)
    also have "\<dots> \<longleftrightarrow> (10::int) dvd int x - int y" by (rule mod_eq_dvd_iff)
    finally show ?thesis .
  qed
  have "p mod 10 = q mod 10 \<longleftrightarrow> (10::int) dvd (int b - int a) * int (weight n)"
    by (simp only: m e)
  also have "\<dots> \<longleftrightarrow> (10::int) dvd int b - int a"
    by (rule dvd10_weight)
  also have "\<dots> \<longleftrightarrow> b mod 10 = a mod 10"
    by (simp only: m)
  finally show ?thesis .
qed

lemma spec_check_digit_update:
  assumes "k < length field" and "char_value c = Some v"
  shows "spec_check_digit (field[k := c]) = spec_check_digit field
           \<longleftrightarrow> v mod 10 = the (char_value (field ! k)) mod 10"
  unfolding spec_check_digit_def length_list_update
  by (rule mod10_times_weight [OF spec_sum_update [OF assms]])

lemma specimen_number_digit: "spec_check_digit ''L898902C<'' = 3"
proof -
  have "mrz_chars ''L898902C<''"
    by (simp add: mrz_chars_def char_value_def)
  from check_digit_spec [OF this] show ?thesis
    by (simp add: check_digit_def char_value_def weight_def)
qed

text \<open>
  C2, as the spec has it: replacing any one character of a field with a correct check
  digit makes the validator refuse. On the passport number of the ICAO specimen,
  \<^verbatim>\<open>L898902C<\<close> with check digit 3, replacing the filler at position 8 by the digit 0
  leaves the validator accepting: both characters count as 0.
\<close>

theorem single_replacement_undetected:
  "CHR ''3'' = digit_char (spec_check_digit ''L898902C<'')
   \<and> checksum_valid ''L898902C<'' CHR ''3''
   \<and> ''L898902C<'' ! 8 = CHR ''<''
   \<and> CHR ''0'' \<noteq> CHR ''<''
   \<and> checksum_valid (''L898902C<''[8 := CHR ''0'']) CHR ''3''"
  by (simp add: specimen_number_digit checksum_valid_def check_digit_def char_value_def
                weight_def digit_char_def)

text \<open>
  C2, amended. For a field of MRZ characters, the validator accepts the check digit
  that is the sum of value times weight modulo 10 and refuses every other character in
  its place. Replacing one character of the field by an MRZ character, the check digit
  staying, makes the validator refuse exactly when the values of the two characters
  differ modulo 10; a replacement between characters whose values agree modulo 10,
  such as \<^verbatim>\<open><\<close> and \<^verbatim>\<open>0\<close>, or \<^verbatim>\<open>A\<close> and \<^verbatim>\<open>K\<close>, is not detected.
\<close>

theorem check_digit_detection:
  "mrz_chars field \<longrightarrow>
     checksum_valid field (digit_char (spec_check_digit field))
     \<and> (stored \<noteq> digit_char (spec_check_digit field) \<longrightarrow> \<not> checksum_valid field stored)
     \<and> (k < length field \<and> char_value c = Some v \<longrightarrow>
          (\<not> checksum_valid (field[k := c]) (digit_char (spec_check_digit field))
           \<longleftrightarrow> v mod 10 \<noteq> the (char_value (field ! k)) mod 10))"
proof (intro impI conjI)
  assume f: "mrz_chars field"
  note cd = check_digit_spec [OF f]
  show "checksum_valid field (digit_char (spec_check_digit field))"
    by (simp add: checksum_valid_def cd)
  show "\<not> checksum_valid field stored" if "stored \<noteq> digit_char (spec_check_digit field)"
    using that by (simp add: checksum_valid_def cd)
  show "\<not> checksum_valid (field[k := c]) (digit_char (spec_check_digit field))
          \<longleftrightarrow> v mod 10 \<noteq> the (char_value (field ! k)) mod 10"
    if a: "k < length field \<and> char_value c = Some v"
  proof -
    from a have k: "k < length field" and c: "char_value c = Some v" by simp_all
    have lt: "spec_check_digit s < 10" for s
      by (simp add: spec_check_digit_def)
    have "checksum_valid (field[k := c]) (digit_char (spec_check_digit field))
            \<longleftrightarrow> digit_char (spec_check_digit field) =
                digit_char (spec_check_digit (field[k := c]))"
      by (simp add: checksum_valid_def check_digit_spec [OF mrz_chars_update [OF f c]])
    also have "\<dots> \<longleftrightarrow> spec_check_digit (field[k := c]) = spec_check_digit field"
      using digit_char_inj [OF lt lt, of field "field[k := c]"] by auto
    also have "\<dots> \<longleftrightarrow> v mod 10 = the (char_value (field ! k)) mod 10"
      by (rule spec_check_digit_update [OF k c])
    finally show ?thesis by simp
  qed
qed

theorem check_digit_detection_witness:
  "checksum_valid ''L898902C<'' CHR ''3''
   \<and> \<not> checksum_valid ''L898902C<'' CHR ''4''
   \<and> \<not> checksum_valid ''M898902C<'' CHR ''3''
   \<and> checksum_valid ''L898902C0'' CHR ''3''"
proof -
  have f: "mrz_chars ''L898902C<''"
    by (simp add: mrz_chars_def char_value_def)
  have d: "digit_char 3 = CHR ''3''" "CHR ''4'' \<noteq> CHR ''3''"
    by (simp_all add: digit_char_def)
  have m: "(0::nat) < length ''L898902C<'' \<and> char_value CHR ''M'' = Some 22"
    by (simp add: char_value_def)
  have z: "8 < length ''L898902C<'' \<and> char_value CHR ''0'' = Some 0"
    by (simp add: char_value_def)
  have v: "char_value (''L898902C<'' ! 0) = Some 21" "char_value (''L898902C<'' ! 8) = Some 0"
    by (simp_all add: char_value_def)
  from check_digit_detection
         [where field = "''L898902C<''" and stored = "CHR ''4''" and k = 0
            and c = "CHR ''M''" and v = 22, rule_format, OF f]
       check_digit_detection
         [where field = "''L898902C<''" and stored = "CHR ''4''" and k = 8
            and c = "CHR ''0''" and v = 0, rule_format, OF f]
       d m z v
  show ?thesis
    by (simp add: specimen_number_digit)
qed

end
